theory Spec2Isabelle
  imports Main "HOL-Library.AList"
begin

section \<open>Strings and the criteria tuple\<close>

text \<open>
  A Python \<^verbatim>\<open>str\<close> is a sequence of Unicode code points; it is modelled as a list of
  natural numbers. \<open>u\<close> embeds an ASCII literal. The identifiers returned by
  \<^verbatim>\<open>get_configuration\<close> and \<^verbatim>\<open>get_language_code\<close> are plain ASCII and are kept
  as \<open>string\<close>.
\<close>

type_synonym pystr = "nat list"

definition u :: "string \<Rightarrow> pystr" where
  "u s = map of_char s"

text \<open>
  The criteria tuple of \<^verbatim>\<open>plugin.py\<close>, one field per index constant. The enumerations
  are the integers the preferences hold. \<open>PUNC_DICT\<close> is a dictionary from mark to mark
  (insertion ordered, hence an association list); \<open>PUNC_REGEX\<close> is \<open>None\<close> or the
  compiled alternation \<^verbatim>\<open>"(%s)" % "|".join(keys)\<close> over single marks, represented by
  the list of its alternatives.
\<close>

record criteria =
  INPUT_SOURCE :: int
  CONVERSION_TYPE :: int
  INPUT_LOCALE :: int
  OUTPUT_LOCALE :: int
  USE_TARGET_PHRASES :: bool
  QUOTATION_TYPE :: int
  OUTPUT_ORIENTATION :: int
  UPDATE_PUNCTUATION :: bool
  PUNC_DICT :: "(nat \<times> nat) list"
  PUNC_REGEX :: "nat list option"

section \<open>Conversion resolver\<close>

definition get_language_code :: "'a criteria_scheme \<Rightarrow> string" where
  "get_language_code c =
    (let conversion_mode = CONVERSION_TYPE c;
         input_type = INPUT_LOCALE c;
         output_type = OUTPUT_LOCALE c
     in if conversion_mode = 1 then
          (if output_type = 0 then ''zh-CN'' else ''None'')
        else if conversion_mode = 2 then
          (if output_type = 0 then ''zh-CN''
           else if output_type = 1 then ''zh-HK''
           else ''zh-TW'')
        else if conversion_mode = 3 then
          (if input_type = 0 then
             (if output_type = 1 then ''zh-HK''
              else if output_type = 2 then ''zh-TW''
              else ''None'')
           else if input_type = 1 then
             (if output_type = 0 then ''zh-CN'' else ''None'')
           else if input_type = 2 then
             (if output_type = 0 then ''zh-CN'' else ''None'')
           else ''None'')
        else ''None'')"

definition get_configuration :: "'a criteria_scheme \<Rightarrow> string" where
  "get_configuration c =
    (let conversion_mode = CONVERSION_TYPE c;
         input_type = INPUT_LOCALE c;
         output_type = OUTPUT_LOCALE c;
         use_target_phrasing = USE_TARGET_PHRASES c
     in if conversion_mode = 0 then ''no_conversion''
        else if conversion_mode = 1 then
          (if input_type = 0 then
             (if output_type = 0 then ''t2s''
              else if output_type = 3 then ''t2jp''
              else ''unsupported_conversion'')
           else if input_type = 1 then
             (if output_type \<noteq> 0 then ''unsupported_conversion'' else ''hk2s'')
           else if input_type = 2 then
             (if output_type \<noteq> 0 then ''unsupported_conversion''
              else ''tw2s'' @ (if use_target_phrasing then ''p'' else ''''))
           else ''unsupported_conversion'')
        else if conversion_mode = 2 then
          (if input_type = 0 then
             (if output_type = 0 then ''s2t''
              else if output_type = 1 then ''s2hk''
              else if output_type = 2 then
                ''s2tw'' @ (if use_target_phrasing then ''p'' else '''')
              else ''unsupported_conversion'')
           else if input_type = 3 then
             (if output_type = 0 then ''jp2t'' else ''unsupported_conversion'')
           else ''unsupported_conversion'')
        else
          (if input_type = 0 then
             (if output_type = 0 then ''no_conversion''
              else if output_type = 1 then ''t2hk''
              else if output_type = 2 then ''t2tw''
              else ''unsupported_conversion'')
           else if input_type = 1 then
             (if output_type = 0 then ''hk2t''
              else if output_type = 1 then ''no_conversion''
              else ''unsupported_conversion'')
           else if input_type = 2 then
             (if output_type = 0 then ''tw2t''
              else if output_type = 2 then ''no_conversion''
              else ''unsupported_conversion'')
           else ''unsupported_conversion''))"


section \<open>Punctuation and quotation tables\<close>

datatype error = KeyError


definition trad_to_simp_quotes :: "(nat \<times> nat) list" where
  "trad_to_simp_quotes =
    [(0x300C, 0x201C), (0x300D, 0x201D), (0x300E, 0x2018), (0x300F, 0x2019)]"

definition trad_to_simp_re :: "nat list" where
  "trad_to_simp_re = map fst trad_to_simp_quotes"

definition simp_to_trad_quotes :: "(nat \<times> nat) list" where
  "simp_to_trad_quotes =
    [(0x201C, 0x300C), (0x201D, 0x300D), (0x2018, 0x300E), (0x2019, 0x300F)]"

definition simp_to_trad_re :: "nat list" where
  "simp_to_trad_re = map fst simp_to_trad_quotes"

text \<open>
  \<^verbatim>\<open>regex.sub(lambda mo: replace_dict[mo.group(0)], text)\<close> for an alternation of
  single marks: the text is scanned from the left, a code point that is one of the
  alternatives is looked up in the dictionary (a missing key raises \<^verbatim>\<open>KeyError\<close>),
  any other code point is copied.
\<close>

fun sub_scan :: "nat list \<Rightarrow> (nat \<times> nat) list \<Rightarrow> pystr \<Rightarrow> error + pystr" where
  "sub_scan ks d [] = Inr []"
| "sub_scan ks d (ch # cs) =
     (if ch \<in> set ks then
        (case map_of d ch of
           None \<Rightarrow> Inl KeyError
         | Some v \<Rightarrow> (case sub_scan ks d cs of Inl e \<Rightarrow> Inl e | Inr r \<Rightarrow> Inr (v # r)))
      else (case sub_scan ks d cs of Inl e \<Rightarrow> Inl e | Inr r \<Rightarrow> Inr (ch # r)))"

text \<open>
  An alternation without alternatives is the pattern \<^verbatim>\<open>()\<close>; it matches the empty
  string at position 0 of any text, and the empty string is no key of a dictionary of
  marks.
\<close>

definition multiple_replace :: "nat list \<Rightarrow> (nat \<times> nat) list \<Rightarrow> pystr \<Rightarrow> error + pystr" where
  "multiple_replace replace_regex replace_dict text =
     (if replace_regex = [] then Inl KeyError
      else sub_scan replace_regex replace_dict text)"

definition replace_quotations :: "'a criteria_scheme \<Rightarrow> pystr \<Rightarrow> error + pystr" where
  "replace_quotations c data =
     (if QUOTATION_TYPE c = 1 then sub_scan trad_to_simp_re trad_to_simp_quotes data
      else if QUOTATION_TYPE c = 2 then sub_scan simp_to_trad_re simp_to_trad_quotes data
      else Inr data)"

section \<open>Whitespace\<close>

text \<open>
  The code points for which Python's \<^verbatim>\<open>str.isspace\<close> holds; \<^verbatim>\<open>str.strip()\<close>
  removes the same code points from both ends.
\<close>

definition is_space_char :: "nat \<Rightarrow> bool" where
  "is_space_char ch \<longleftrightarrow>
     (9 \<le> ch \<and> ch \<le> 13) \<or> (28 \<le> ch \<and> ch \<le> 32) \<or> ch = 0x85 \<or> ch = 0xA0
     \<or> ch = 0x1680 \<or> (0x2000 \<le> ch \<and> ch \<le> 0x200A) \<or> ch = 0x2028 \<or> ch = 0x2029
     \<or> ch = 0x202F \<or> ch = 0x205F \<or> ch = 0x3000"

definition isspace :: "pystr \<Rightarrow> bool" where
  "isspace text \<longleftrightarrow> text \<noteq> [] \<and> list_all is_space_char text"

definition strip :: "pystr \<Rightarrow> pystr" where
  "strip data = rev (dropWhile is_space_char (rev (dropWhile is_space_char data)))"

definition seltext_start_tag :: pystr where
  "seltext_start_tag = u ''PI_SELTEXT_START''"

definition seltext_end_tag :: pystr where
  "seltext_end_tag = u ''PI_SELTEXT_END''"

section \<open>The language attribute matcher\<close>

text \<open>
  \<^verbatim>\<open>zh_re = re.compile(r'lang=\"zh-\w+\"|lang=\"zh\"', re.IGNORECASE)\<close>.
  The letters of the pattern match in either case. \<^verbatim>\<open>\w\<close> is an ASCII letter, digit
  or underscore, or a code point beyond ASCII that the runtime's Unicode table classes
  as alphanumeric; that table is the parameter \<open>uw\<close>.
\<close>

definition ascii_lower :: "nat \<Rightarrow> nat" where
  "ascii_lower ch = (if 65 \<le> ch \<and> ch \<le> 90 then ch + 32 else ch)"

definition is_word :: "(nat \<Rightarrow> bool) \<Rightarrow> nat \<Rightarrow> bool" where
  "is_word uw ch \<longleftrightarrow>
     (if ch < 128 then
        (48 \<le> ch \<and> ch \<le> 57) \<or> (65 \<le> ch \<and> ch \<le> 90) \<or> (97 \<le> ch \<and> ch \<le> 122) \<or> ch = 95
      else uw ch)"

text \<open>\<open>ci_prefix lit s\<close>: the rest of \<open>s\<close> after the literal \<open>lit\<close> (given in lower case).\<close>

fun ci_prefix :: "pystr \<Rightarrow> pystr \<Rightarrow> pystr option" where
  "ci_prefix [] s = Some s"
| "ci_prefix (l # ls) [] = None"
| "ci_prefix (l # ls) (ch # cs) = (if ascii_lower ch = l then ci_prefix ls cs else None)"

text \<open>
  The length of the match of \<open>zh_re\<close> at the head of the text, if there is one. The
  greedy \<^verbatim>\<open>\w+\<close> takes every word character; the closing quote is not one, so no
  shorter choice can match.
\<close>

definition zh_match :: "(nat \<Rightarrow> bool) \<Rightarrow> pystr \<Rightarrow> nat option" where
  "zh_match uw s =
     (let second = (case ci_prefix (u ''lang=\"zh\"'') s of
                      Some _ \<Rightarrow> Some (9::nat) | None \<Rightarrow> None)
      in case ci_prefix (u ''lang=\"zh-'') s of
           None \<Rightarrow> second
         | Some rest \<Rightarrow>
             (let w = takeWhile (is_word uw) rest
              in if w \<noteq> [] \<and> take 1 (drop (length w) rest) = u ''\"''
                 then Some (9 + length w + 1) else second))"

text \<open>
  \<^verbatim>\<open>zh_re.sub(language, text)\<close>: every match, found from the left and not
  overlapping, is replaced by the language attribute; a match has at least nine code
  points. The attribute that \<^verbatim>\<open>_ok_clicked\<close> sets holds no backslash, so the
  replacement is inserted as it is.
\<close>

fun zh_sub :: "(nat \<Rightarrow> bool) \<Rightarrow> pystr \<Rightarrow> pystr \<Rightarrow> pystr" where
  "zh_sub uw repl [] = []"
| "zh_sub uw repl (ch # cs) =
     (case zh_match uw (ch # cs) of
        Some n \<Rightarrow> repl @ zh_sub uw repl (drop (n - 1) cs)
      | None \<Rightarrow> ch # zh_sub uw repl cs)"

section \<open>The text processor\<close>

text \<open>
  The attributes of \<^verbatim>\<open>HTML_TextProcessor\<close> that \<^verbatim>\<open>processText\<close> reads but does not
  write: the converter collaborator, the language attribute set by
  \<^verbatim>\<open>setLanguageAttribute\<close>, and the stylesheet flag; with them the Unicode word
  class used by \<open>zh_re\<close>.
\<close>

record parser =
  textConverter :: "pystr \<Rightarrow> pystr"
  language :: "pystr option"
  force_stylesheet :: bool
  unicode_word :: "nat \<Rightarrow> bool"

text \<open>
  The attributes it writes: the \<open>converting\<close> flag and the \<open>result\<close> list. \<open>converted\<close>
  records the arguments of the calls to \<^verbatim>\<open>textConverter.convert\<close>, in order.
\<close>

record pstate =
  converting :: bool
  result :: "pystr list"
  converted :: "pystr list"

text \<open>
  The events that \<^verbatim>\<open>HTMLParser.feed\<close> reports to the handlers, with the arguments of
  each handler; a start tag carries the tag name, the attribute list and the text
  returned by \<^verbatim>\<open>get_starttag_text()\<close>.
\<close>

datatype event =
    StartTag pystr "(pystr \<times> pystr option) list" pystr
  | EndTag pystr
  | StartEndTag pystr "(pystr \<times> pystr option) list" pystr
  | Data pystr
  | Comment pystr
  | PI pystr
  | EntityRef pystr
  | CharRef pystr
  | Decl pystr
  | UnknownDecl pystr

definition emit :: "pystr \<Rightarrow> pstate \<Rightarrow> pstate" where
  "emit text st = st\<lparr>result := result st @ [text]\<rparr>"

text \<open>The f-string \<^verbatim>\<open>f'{self.language}'\<close>: \<open>None\<close> is formatted as the word None.\<close>

definition format_language :: "pystr option \<Rightarrow> pystr" where
  "format_language l = (case l of None \<Rightarrow> u ''None'' | Some s \<Rightarrow> s)"

definition handle_starttag ::
  "parser \<Rightarrow> criteria \<Rightarrow> pystr \<Rightarrow> (pystr \<times> pystr option) list \<Rightarrow> pystr \<Rightarrow> pstate \<Rightarrow> pstate" where
  "handle_starttag p c tag attrs starttag_text st =
     (let text = (case language p of
                    Some lang \<Rightarrow>
                      if converting st \<and> CONVERSION_TYPE c \<noteq> 0
                      then zh_sub (unicode_word p) lang starttag_text
                      else starttag_text
                  | None \<Rightarrow> starttag_text);
          text = (if tag = u ''html'' then
                    (let attrs_list = map fst attrs
                     in if u ''xml:lang'' \<notin> set attrs_list
                        then butlast text @ u '' xml:'' @ format_language (language p) @ u ''>''
                        else text)
                  else text)
      in emit text st)"

definition handle_endtag :: "parser \<Rightarrow> criteria \<Rightarrow> pystr \<Rightarrow> pstate \<Rightarrow> pstate" where
  "handle_endtag p c tag st =
     (let st = (if tag = u ''head'' \<and> force_stylesheet p
                then emit (u ''<link rel=\"stylesheet\" type=\"text/css\" href=\"./Styles/stylesheet.css\"/>'') st
                else st)
      in emit (u ''</'' @ tag @ u ''>'') st)"

definition handle_startendtag ::
  "parser \<Rightarrow> criteria \<Rightarrow> pystr \<Rightarrow> (pystr \<times> pystr option) list \<Rightarrow> pystr \<Rightarrow> pstate \<Rightarrow> pstate" where
  "handle_startendtag p c tag attrs starttag_text st =
     (case language p of
        Some lang \<Rightarrow>
          if INPUT_SOURCE c = 0 \<and> CONVERSION_TYPE c \<noteq> 0
          then emit (zh_sub (unicode_word p) lang starttag_text) st
          else emit starttag_text st
      | None \<Rightarrow> emit starttag_text st)"

text \<open>Sequencing of steps that may raise.\<close>

definition and_then :: "error + 'a \<Rightarrow> ('a \<Rightarrow> error + 'b) \<Rightarrow> error + 'b" where
  "and_then r f = (case r of Inl e \<Rightarrow> Inl e | Inr x \<Rightarrow> f x)"

definition handle_data :: "parser \<Rightarrow> criteria \<Rightarrow> pystr \<Rightarrow> pstate \<Rightarrow> error + pstate" where
  "handle_data p c text st =
     (if isspace text then Inr (emit text st)
      else
        and_then
          (if converting st then
             and_then
               (if OUTPUT_ORIENTATION c = 0 \<or> OUTPUT_ORIENTATION c = 2 then
                  (if QUOTATION_TYPE c \<noteq> 0 then replace_quotations c text else Inr text)
                else Inr text)
               (\<lambda>text.
                  and_then
                    (case PUNC_REGEX c of
                       Some punc_regex \<Rightarrow> multiple_replace punc_regex (PUNC_DICT c) text
                     | None \<Rightarrow> Inr text)
                    (\<lambda>text.
                       if OUTPUT_ORIENTATION c = 1 then
                         (if QUOTATION_TYPE c \<noteq> 0 then replace_quotations c text else Inr text)
                       else Inr text))
           else Inr text)
          (\<lambda>text.
             if CONVERSION_TYPE c \<noteq> 0 \<and> converting st
             then Inr (emit (textConverter p text) (st\<lparr>converted := converted st @ [text]\<rparr>))
             else Inr (emit text st)))"

definition handle_comment :: "parser \<Rightarrow> criteria \<Rightarrow> pystr \<Rightarrow> pstate \<Rightarrow> pstate" where
  "handle_comment p c data st =
     (let st = (if INPUT_SOURCE c = 2 \<and> strip data = seltext_start_tag
                then st\<lparr>converting := True\<rparr>
                else if INPUT_SOURCE c = 2 \<and> strip data = seltext_end_tag
                then st\<lparr>converting := False\<rparr>
                else st)
      in emit (u ''<!--'' @ data @ u ''-->'') st)"

definition handle_pi :: "pystr \<Rightarrow> pstate \<Rightarrow> pstate" where
  "handle_pi data st = emit (u ''<?'' @ data @ u ''>'') st"

definition handle_entityref :: "pystr \<Rightarrow> pstate \<Rightarrow> pstate" where
  "handle_entityref name st = emit (u ''&'' @ name @ u '';'') st"

definition handle_charref :: "pystr \<Rightarrow> pstate \<Rightarrow> pstate" where
  "handle_charref name st = emit (u ''&#'' @ name @ u '';'') st"

definition handle_decl :: "pystr \<Rightarrow> pstate \<Rightarrow> pstate" where
  "handle_decl data st = emit (u ''<!'' @ data @ u ''>'') st"

definition unknown_decl :: "pystr \<Rightarrow> pstate \<Rightarrow> pstate" where
  "unknown_decl data st = emit (u ''<!'' @ data @ u ''>'') st"

text \<open>The parser's dispatch of one event to its handler.\<close>

fun handle_event :: "parser \<Rightarrow> criteria \<Rightarrow> event \<Rightarrow> pstate \<Rightarrow> error + pstate" where
  "handle_event p c (StartTag tag attrs raw) st = Inr (handle_starttag p c tag attrs raw st)"
| "handle_event p c (EndTag tag) st = Inr (handle_endtag p c tag st)"
| "handle_event p c (StartEndTag tag attrs raw) st = Inr (handle_startendtag p c tag attrs raw st)"
| "handle_event p c (Data text) st = handle_data p c text st"
| "handle_event p c (Comment data) st = Inr (handle_comment p c data st)"
| "handle_event p c (PI data) st = Inr (handle_pi data st)"
| "handle_event p c (EntityRef name) st = Inr (handle_entityref name st)"
| "handle_event p c (CharRef name) st = Inr (handle_charref name st)"
| "handle_event p c (Decl data) st = Inr (handle_decl data st)"
| "handle_event p c (UnknownDecl data) st = Inr (unknown_decl data st)"

text \<open>\<^verbatim>\<open>feed\<close>: the events of the document in order; an exception ends the walk.\<close>

fun feed :: "parser \<Rightarrow> criteria \<Rightarrow> event list \<Rightarrow> pstate \<Rightarrow> error + pstate" where
  "feed p c [] st = Inr st"
| "feed p c (e # es) st = and_then (handle_event p c e st) (feed p c es)"

text \<open>
  The state in which \<^verbatim>\<open>processText\<close> starts the walk: the result list cleared, the
  flag off for a selected text region and on otherwise.
\<close>

definition start_state :: "criteria \<Rightarrow> pstate" where
  "start_state c =
     \<lparr>converting = (if INPUT_SOURCE c = 2 then False else True), result = [], converted = []\<rparr>"

definition processText :: "parser \<Rightarrow> criteria \<Rightarrow> event list \<Rightarrow> error + pystr" where
  "processText p c data =
     (case feed p c data (start_state c) of
        Inl e \<Rightarrow> Inl e
      | Inr st \<Rightarrow> Inr (concat (result st)))"



section \<open>Criteria from the preferences\<close>




text \<open>
  The language attribute that \<^verbatim>\<open>_ok_clicked\<close> hands to \<^verbatim>\<open>setLanguageAttribute\<close>
  before the files are processed.
\<close>

definition ok_clicked_language :: "criteria \<Rightarrow> pystr option" where
  "ok_clicked_language c =
     (let language = get_language_code c
      in if language \<noteq> ''None'' then Some (u (''lang=\"'' @ language @ ''\"'')) else None)"

section \<open>Predicates and steps used in the statements\<close>


fun is_start_sentinel :: "event \<Rightarrow> bool" where
  "is_start_sentinel (Comment data) = (strip data = seltext_start_tag)"
| "is_start_sentinel e = False"

fun is_end_sentinel :: "event \<Rightarrow> bool" where
  "is_end_sentinel (Comment data) = (strip data = seltext_end_tag)"
| "is_end_sentinel e = False"

definition quote_step :: "criteria \<Rightarrow> pystr \<Rightarrow> error + pystr" where
  "quote_step c text = (if QUOTATION_TYPE c \<noteq> 0 then replace_quotations c text else Inr text)"

definition punct_step :: "criteria \<Rightarrow> pystr \<Rightarrow> error + pystr" where
  "punct_step c text =
     (case PUNC_REGEX c of
        Some punc_regex \<Rightarrow> multiple_replace punc_regex (PUNC_DICT c) text
      | None \<Rightarrow> Inr text)"

definition convert_step :: "parser \<Rightarrow> criteria \<Rightarrow> pstate \<Rightarrow> pystr \<Rightarrow> error + pstate" where
  "convert_step p c st text =
     (if CONVERSION_TYPE c \<noteq> 0
      then Inr (st\<lparr>result := result st @ [textConverter p text],
                  converted := converted st @ [text]\<rparr>)
      else Inr (st\<lparr>result := result st @ [text]\<rparr>))"

definition identity_parser :: parser where
  "identity_parser =
     \<lparr>textConverter = (\<lambda>t. t), language = None, force_stylesheet = False,
      unicode_word = (\<lambda>ch. False)\<rparr>"

definition plain_criteria :: criteria where
  "plain_criteria =
     \<lparr>INPUT_SOURCE = 0, CONVERSION_TYPE = 0, INPUT_LOCALE = 0, OUTPUT_LOCALE = 0,
      USE_TARGET_PHRASES = False, QUOTATION_TYPE = 0, OUTPUT_ORIENTATION = 0,
      UPDATE_PUNCTUATION = False, PUNC_DICT = [], PUNC_REGEX = None\<rparr>"

text \<open>
  A converter that leaves text as it is and one that marks what it converts, two criteria
  tuples and a set of preferences, for the concrete runs below.
\<close>

definition region_criteria :: criteria where
  "region_criteria = plain_criteria\<lparr>INPUT_SOURCE := 2, CONVERSION_TYPE := 1\<rparr>"

definition marking_parser :: parser where
  "marking_parser = identity_parser\<lparr>textConverter := (\<lambda>t. t @ u ''!'')\<rparr>"


section \<open>Resolver results\<close>

text \<open>
  C4. The resolver maps (TradToTrad, Mainland, Mainland) to \<open>no_conversion\<close>,
  (TradToSimp, Taiwan, Mainland) with target phrasing to \<open>tw2sp\<close>,
  (TradToTrad, HongKong, Taiwan) to \<open>unsupported_conversion\<close> and
  (SimpToTrad, Japan, HongKong) to \<open>unsupported_conversion\<close>, whatever the other
  fields of the criteria tuple hold.
\<close>

theorem get_configuration_table:
  "get_configuration (c\<lparr>CONVERSION_TYPE := 3, INPUT_LOCALE := 0, OUTPUT_LOCALE := 0\<rparr>)
     = ''no_conversion''
   \<and> get_configuration (c\<lparr>CONVERSION_TYPE := 1, INPUT_LOCALE := 2, OUTPUT_LOCALE := 0,
        USE_TARGET_PHRASES := True\<rparr>) = ''tw2sp''
   \<and> get_configuration (c\<lparr>CONVERSION_TYPE := 3, INPUT_LOCALE := 1, OUTPUT_LOCALE := 2\<rparr>)
     = ''unsupported_conversion''
   \<and> get_configuration (c\<lparr>CONVERSION_TYPE := 2, INPUT_LOCALE := 3, OUTPUT_LOCALE := 1\<rparr>)
     = ''unsupported_conversion''"
  by (simp add: get_configuration_def)

text \<open>
  C8. The language code is \<open>zh-HK\<close> for SimpToTrad with output locale HongKong, for
  every input locale, and the string \<open>None\<close> for mode NoChange with any locales.
\<close>

theorem get_language_code_table:
  "get_language_code (c\<lparr>CONVERSION_TYPE := 2, INPUT_LOCALE := i, OUTPUT_LOCALE := 1\<rparr>)
     = ''zh-HK''
   \<and> get_language_code (c\<lparr>CONVERSION_TYPE := 0, INPUT_LOCALE := i, OUTPUT_LOCALE := j\<rparr>)
     = ''None''"
  by (simp add: get_language_code_def)

section \<open>The walk over a document\<close>

lemma and_then_simps [simp]:
  "and_then (Inl e) f = Inl e" "and_then (Inr x) f = f x"
  by (simp_all add: and_then_def)

lemma feed_append: "feed p c (xs @ ys) st = and_then (feed p c xs st) (feed p c ys)"
  by (induction xs arbitrary: st) (auto simp: and_then_def split: sum.splits)

lemma sub_scan_own_keys:
  "sub_scan (map fst d) d s = Inr (map (\<lambda>ch. case map_of d ch of Some v \<Rightarrow> v | None \<Rightarrow> ch) s)"
proof (induction s)
  case Nil
  show ?case by simp
next
  case (Cons ch cs)
  show ?case
  proof (cases "map_of d ch")
    case None
    then have "ch \<notin> set (map fst d)" by (simp add: map_of_eq_None_iff)
    with None Cons show ?thesis by simp
  next
    case (Some v)
    then have "ch \<in> set (map fst d)" by (metis map_of_eq_None_iff option.distinct(1) set_map)
    with Some Cons show ?thesis by simp
  qed
qed

lemma replace_quotations_total: "\<exists>r. replace_quotations c s = Inr r"
  by (simp add: replace_quotations_def trad_to_simp_re_def simp_to_trad_re_def sub_scan_own_keys)

lemmas handler_defs =
  handle_starttag_def handle_endtag_def handle_startendtag_def handle_comment_def
  handle_pi_def handle_entityref_def handle_charref_def handle_decl_def unknown_decl_def
  emit_def

text \<open>What a text run does when the flag is off, or when no rule is switched on.\<close>

lemma handle_data_not_converting:
  "\<not> converting st \<Longrightarrow> handle_data p c s st = Inr (st\<lparr>result := result st @ [s]\<rparr>)"
  by (simp add: handle_data_def emit_def)






section \<open>Mode NoChange\<close>




section \<open>Whitespace runs and markup\<close>

text \<open>
  C7. A text run for which \<^verbatim>\<open>isspace\<close> holds is appended to the result as received,
  for every criteria tuple and in either state of the flag; the converter is not called
  and nothing else in the state changes. In a document, the walk continues after the run
  with the run appended.
\<close>

theorem whitespace_run_verbatim:
  assumes "isspace s"
  shows "handle_data p c s st = Inr (st\<lparr>result := result st @ [s]\<rparr>)
    \<and> feed p c (xs @ Data s # ys) st
        = and_then (feed p c xs st) (\<lambda>st'. feed p c ys (st'\<lparr>result := result st' @ [s]\<rparr>))"
  using assms
  by (cases "feed p c xs st") (simp_all add: feed_append handle_data_def emit_def)

theorem whitespace_run_verbatim_witness:
  "isspace (u '' '') \<and>
   feed identity_parser (plain_criteria\<lparr>CONVERSION_TYPE := 1, QUOTATION_TYPE := 1\<rparr>)
     [Data (u '' '')] (start_state plain_criteria)
   = Inr \<lparr>converting = True, result = [u '' ''], converted = []\<rparr>"
  using whitespace_run_verbatim [of "u '' ''" identity_parser
      "plain_criteria\<lparr>CONVERSION_TYPE := 1, QUOTATION_TYPE := 1\<rparr>" "start_state plain_criteria"
      "[]" "[]"]
  by (simp add: isspace_def is_space_char_def u_def start_state_def plain_criteria_def)



section \<open>Order of the rewrites of a text run\<close>

text \<open>
  C3. For a text run that is not whitespace, processed while the flag is on: with
  orientation NoChange or Vertical the quotation step comes before the punctuation step,
  with orientation Horizontal the punctuation step comes before the quotation step, and
  in both cases the converter is applied last, only when the mode is not NoChange.
\<close>

theorem text_run_order:
  assumes "converting st" and "\<not> isspace s"
  shows "(OUTPUT_ORIENTATION c = 0 \<or> OUTPUT_ORIENTATION c = 2 \<longrightarrow>
           handle_data p c s st
             = and_then (and_then (quote_step c s) (punct_step c)) (convert_step p c st))
       \<and> (OUTPUT_ORIENTATION c = 1 \<longrightarrow>
           handle_data p c s st
             = and_then (and_then (punct_step c s) (quote_step c)) (convert_step p c st))"
proof -
  have first: "handle_data p c s st
      = and_then (and_then (quote_step c s) (punct_step c)) (convert_step p c st)"
    if "OUTPUT_ORIENTATION c = 0 \<or> OUTPUT_ORIENTATION c = 2"
    using that assms
    by (auto simp: handle_data_def quote_step_def punct_step_def convert_step_def emit_def
          and_then_def split: sum.splits option.splits)
  have second: "handle_data p c s st
      = and_then (and_then (punct_step c s) (quote_step c)) (convert_step p c st)"
    if "OUTPUT_ORIENTATION c = 1"
    using that assms
    by (auto simp: handle_data_def quote_step_def punct_step_def convert_step_def emit_def
          and_then_def split: sum.splits option.splits)
  from first second show ?thesis by blast
qed

theorem text_run_order_witness:
  "handle_data identity_parser
     (plain_criteria\<lparr>QUOTATION_TYPE := 2, OUTPUT_ORIENTATION := 2,
        PUNC_DICT := [(0x300C, 0xFE41)], PUNC_REGEX := Some [0x300C]\<rparr>)
     [0x201C] (start_state plain_criteria)
   = Inr \<lparr>converting = True, result = [[0xFE41]], converted = []\<rparr>
   \<and> handle_data identity_parser
     (plain_criteria\<lparr>CONVERSION_TYPE := 1, QUOTATION_TYPE := 1, OUTPUT_ORIENTATION := 1,
        PUNC_DICT := [(0xFE41, 0x300C)], PUNC_REGEX := Some [0xFE41]\<rparr>)
     [0xFE41] (start_state plain_criteria)
   = Inr \<lparr>converting = True, result = [[0x201C]], converted = [[0x201C]]\<rparr>"
proof -
  have a: "converting (start_state plain_criteria)"
    by (simp add: start_state_def plain_criteria_def)
  have b: "\<not> isspace [0x201C]" "\<not> isspace [0xFE41]"
    by (simp_all add: isspace_def is_space_char_def)
  show ?thesis
    using text_run_order [OF a b(1), of
        "plain_criteria\<lparr>QUOTATION_TYPE := 2, OUTPUT_ORIENTATION := 2,
           PUNC_DICT := [(0x300C, 0xFE41)], PUNC_REGEX := Some [0x300C]\<rparr>" identity_parser]
      text_run_order [OF a b(2), of
        "plain_criteria\<lparr>CONVERSION_TYPE := 1, QUOTATION_TYPE := 1, OUTPUT_ORIENTATION := 1,
           PUNC_DICT := [(0xFE41, 0x300C)], PUNC_REGEX := Some [0xFE41]\<rparr>" identity_parser]
    by (simp add: plain_criteria_def identity_parser_def start_state_def quote_step_def
        punct_step_def convert_step_def replace_quotations_def multiple_replace_def
        simp_to_trad_re_def simp_to_trad_quotes_def trad_to_simp_re_def trad_to_simp_quotes_def)
qed

section \<open>Selected text region\<close>

lemma handle_event_flag_off:
  assumes "INPUT_SOURCE c = 2" "\<not> converting st" "\<not> is_start_sentinel e"
  shows "\<exists>s. handle_event p c e st = Inr s \<and> \<not> converting s \<and> converted s = converted st"
  using assms
  by (cases e) (auto simp: handler_defs handle_data_not_converting Let_def split: option.splits)

lemma feed_flag_off:
  assumes "INPUT_SOURCE c = 2"
  shows "\<not> converting st \<Longrightarrow> list_all (\<lambda>e. \<not> is_start_sentinel e) xs \<Longrightarrow>
    \<exists>s. feed p c xs st = Inr s \<and> \<not> converting s \<and> converted s = converted st"
proof (induction xs arbitrary: st)
  case Nil
  then show ?case by simp
next
  case (Cons e es)
  from Cons.prems have e: "\<not> is_start_sentinel e"
    and es: "list_all (\<lambda>e. \<not> is_start_sentinel e) es" by simp_all
  from handle_event_flag_off [OF assms Cons.prems(1) e]
  obtain s1 where s1: "handle_event p c e st = Inr s1" "\<not> converting s1"
    "converted s1 = converted st" by blast
  from Cons.IH [OF s1(2) es]
  obtain s2 where "feed p c es s1 = Inr s2" "\<not> converting s2" "converted s2 = converted s1"
    by blast
  with s1 show ?case by simp
qed

lemma handle_event_flag_on:
  assumes "INPUT_SOURCE c = 2" "converting st" "\<not> is_end_sentinel e"
    "handle_event p c e st = Inr s"
  shows "converting s"
  using assms
  by (cases e)
     (auto simp: handler_defs handle_data_def Let_def and_then_def
           split: option.splits if_splits sum.splits)

lemma feed_flag_on:
  assumes "INPUT_SOURCE c = 2"
  shows "converting st \<Longrightarrow> list_all (\<lambda>e. \<not> is_end_sentinel e) xs \<Longrightarrow>
    feed p c xs st = Inr s \<Longrightarrow> converting s"
proof (induction xs arbitrary: st)
  case Nil
  then show ?case by simp
next
  case (Cons e es)
  from Cons.prems(2) have e: "\<not> is_end_sentinel e"
    and es: "list_all (\<lambda>e. \<not> is_end_sentinel e) es" by simp_all
  from Cons.prems(3) obtain s1 where s1: "handle_event p c e st = Inr s1" "feed p c es s1 = Inr s"
    by (auto simp: and_then_def split: sum.splits)
  from handle_event_flag_on [OF assms Cons.prems(1) e s1(1)] have "converting s1" .
  from Cons.IH [OF this es s1(2)] show ?case .
qed

lemma start_sentinel_sets_flag:
  assumes "INPUT_SOURCE c = 2" "is_start_sentinel e" "handle_event p c e st = Inr s"
  shows "converting s"
  using assms by (cases e) (auto simp: handler_defs)

lemma feed_after_start_sentinel:
  assumes "INPUT_SOURCE c = 2" "is_start_sentinel e"
    "list_all (\<lambda>e. \<not> is_end_sentinel e) mid" "feed p c (xs @ e # mid) st = Inr s"
  shows "converting s"
proof -
  from assms(4) obtain s1 where s1: "feed p c xs st = Inr s1" "feed p c (e # mid) s1 = Inr s"
    by (auto simp: feed_append and_then_def split: sum.splits)
  from s1(2) obtain s2 where s2: "handle_event p c e s1 = Inr s2" "feed p c mid s2 = Inr s"
    by (auto simp: and_then_def split: sum.splits)
  from start_sentinel_sets_flag [OF assms(1,2) s2(1)] have "converting s2" .
  from feed_flag_on [OF assms(1) this assms(3) s2(2)] show ?thesis .
qed


lemma converting_run_calls_converter:
  assumes "converting s" "\<not> isspace t" "CONVERSION_TYPE c \<noteq> 0" "handle_data p c t s = Inr s'"
  shows "\<exists>t'. converted s' = converted s @ [t'] \<and> result s' = result s @ [textConverter p t']"
  using assms
  by (auto simp: handle_data_def emit_def and_then_def split: sum.splits if_splits)

text \<open>
  C2. With input source SelectedTextRegion the flag starts off. A text run before the
  first start sentinel is appended as received and the converter has not been called up
  to there. After a start sentinel, as long as no end sentinel follows, the flag is on:
  a text run there is handled as a converted run (for a run that is not whitespace and
  a mode other than NoChange, the converter is called on it), up to the end of the
  document when no end sentinel comes.
\<close>

theorem selected_region_scope:
  assumes "INPUT_SOURCE c = 2"
  shows "\<not> converting (start_state c)
    \<and> (list_all (\<lambda>e. \<not> is_start_sentinel e) xs \<longrightarrow>
         (\<exists>s. feed p c xs (start_state c) = Inr s \<and> \<not> converting s \<and> converted s = [])
         \<and> feed p c (xs @ Data t # ys) (start_state c)
             = and_then (feed p c xs (start_state c))
                 (\<lambda>s. feed p c ys (s\<lparr>result := result s @ [t]\<rparr>)))
    \<and> (is_start_sentinel e \<and> list_all (\<lambda>e. \<not> is_end_sentinel e) mid \<longrightarrow>
         (\<forall>s. feed p c (xs @ e # mid) st = Inr s \<longrightarrow> converting s)
         \<and> feed p c (xs @ e # mid @ Data t # ys) st
             = and_then (feed p c (xs @ e # mid) st)
                 (\<lambda>s. and_then (handle_data p c t (s\<lparr>converting := True\<rparr>)) (feed p c ys))
         \<and> (\<not> isspace t \<and> CONVERSION_TYPE c \<noteq> 0 \<longrightarrow>
              (\<forall>s s'. feed p c (xs @ e # mid) st = Inr s \<longrightarrow> handle_data p c t s = Inr s' \<longrightarrow>
                 (\<exists>t'. converted s' = converted s @ [t']
                       \<and> result s' = result s @ [textConverter p t']))))"
proof -
  have off: "\<not> converting (start_state c)"
    using assms by (simp add: start_state_def)
  have before: "(\<exists>s. feed p c xs (start_state c) = Inr s \<and> \<not> converting s \<and> converted s = [])
         \<and> feed p c (xs @ Data t # ys) (start_state c)
             = and_then (feed p c xs (start_state c))
                 (\<lambda>s. feed p c ys (s\<lparr>result := result s @ [t]\<rparr>))"
    if xs: "list_all (\<lambda>e. \<not> is_start_sentinel e) xs"
  proof -
    from feed_flag_off [OF assms off xs, of p]
    obtain s where s: "feed p c xs (start_state c) = Inr s" "\<not> converting s"
      "converted s = converted (start_state c)" by blast
    then have "converted s = []" by (simp add: start_state_def)
    with s show ?thesis
      by (simp add: feed_append handle_data_not_converting)
  qed
  have inside: "(\<forall>s. feed p c (xs @ e # mid) st = Inr s \<longrightarrow> converting s)
         \<and> feed p c (xs @ e # mid @ Data t # ys) st
             = and_then (feed p c (xs @ e # mid) st)
                 (\<lambda>s. and_then (handle_data p c t (s\<lparr>converting := True\<rparr>)) (feed p c ys))
         \<and> (\<not> isspace t \<and> CONVERSION_TYPE c \<noteq> 0 \<longrightarrow>
              (\<forall>s s'. feed p c (xs @ e # mid) st = Inr s \<longrightarrow> handle_data p c t s = Inr s' \<longrightarrow>
                 (\<exists>t'. converted s' = converted s @ [t']
                       \<and> result s' = result s @ [textConverter p t'])))"
    if e: "is_start_sentinel e" and mid: "list_all (\<lambda>e. \<not> is_end_sentinel e) mid"
  proof -
    have on: "converting s" if "feed p c (xs @ e # mid) st = Inr s" for s
      using feed_after_start_sentinel [OF assms e mid that] .
    have split: "feed p c (xs @ e # mid @ Data t # ys) st
        = and_then (feed p c (xs @ e # mid) st) (feed p c (Data t # ys))"
      using feed_append [of p c "xs @ e # mid" "Data t # ys" st] by simp
    have eq: "feed p c (xs @ e # mid @ Data t # ys) st
             = and_then (feed p c (xs @ e # mid) st)
                 (\<lambda>s. and_then (handle_data p c t (s\<lparr>converting := True\<rparr>)) (feed p c ys))"
    proof (cases "feed p c (xs @ e # mid) st")
      case (Inl err)
      with split show ?thesis by simp
    next
      case (Inr s)
      with on have "converting s" by simp
      then have "s\<lparr>converting := True\<rparr> = s" by simp
      with Inr split show ?thesis by simp
    qed
    from on eq converting_run_calls_converter show ?thesis by blast
  qed
  from off before inside show ?thesis by blast
qed

theorem selected_region_scope_witness:
  "feed marking_parser region_criteria
     [Data (u ''a''), Comment (u '' PI_SELTEXT_START ''), Data (u ''b''),
      Comment (u ''PI_SELTEXT_END''), Data (u ''c'')]
     (start_state region_criteria)
   = Inr \<lparr>converting = False,
          result = [u ''a'', u ''<!-- PI_SELTEXT_START -->'', u ''b!'',
                    u ''<!--PI_SELTEXT_END-->'', u ''c''],
          converted = [u ''b'']\<rparr>"
  using selected_region_scope [where c = region_criteria and p = marking_parser
      and xs = "[Data (u ''a'')]" and e = "Comment (u '' PI_SELTEXT_START '')"
      and mid = "[]" and t = "u ''b''"
      and ys = "[Comment (u ''PI_SELTEXT_END''), Data (u ''c'')]"
      and st = "start_state region_criteria"]
  by (simp add: region_criteria_def marking_parser_def plain_criteria_def identity_parser_def
      start_state_def handler_defs handle_data_def isspace_def is_space_char_def strip_def
      seltext_start_tag_def seltext_end_tag_def u_def)

section \<open>Punctuation table and matcher\<close>










section \<open>Language attributes of tags\<close>

text \<open>
  C5. With input source SelectedDocuments the flag is on, the mode is TradToSimp and a
  language attribute is set: the open tag has its \<open>lang\<close> attribute replaced, the
  self-closing tag is appended as it is.
\<close>

theorem self_closing_tag_keeps_language:
  "processText (p\<lparr>language := Some (u ''lang=\"zh-CN\"'')\<rparr>)
     (c\<lparr>INPUT_SOURCE := 1, CONVERSION_TYPE := 1\<rparr>)
     [StartTag (u ''p'') [(u ''lang'', Some (u ''zh''))] (u ''<p lang=\"zh\">'')]
   = Inr (u ''<p lang=\"zh-CN\">'')
   \<and> processText (p\<lparr>language := Some (u ''lang=\"zh-CN\"'')\<rparr>)
     (c\<lparr>INPUT_SOURCE := 1, CONVERSION_TYPE := 1\<rparr>)
     [StartEndTag (u ''br'') [(u ''lang'', Some (u ''zh''))] (u ''<br lang=\"zh\"/>'')]
   = Inr (u ''<br lang=\"zh\"/>'')"
  by (simp add: processText_def start_state_def handle_starttag_def handle_startendtag_def
      emit_def u_def zh_match_def ascii_lower_def is_word_def)

text \<open>
  C6. When no language attribute is set, as \<^verbatim>\<open>_ok_clicked\<close> leaves it for mode
  NoChange, the root tag \<^verbatim>\<open><html>\<close> comes out as \<^verbatim>\<open><html xml:None>\<close>; the parser
  reports that tag with the single attribute \<open>xml:none\<close>, and a second pass appends
  the same text again.
\<close>

theorem root_attribute_appended_twice:
  "ok_clicked_language (c\<lparr>CONVERSION_TYPE := 0\<rparr>) = None
   \<and> processText (p\<lparr>language := None\<rparr>) c [StartTag (u ''html'') [] (u ''<html>'')]
     = Inr (u ''<html xml:None>'')
   \<and> processText (p\<lparr>language := None\<rparr>) c
       [StartTag (u ''html'') [(u ''xml:none'', None)] (u ''<html xml:None>'')]
     = Inr (u ''<html xml:None xml:None>'')"
  by (simp add: processText_def start_state_def handle_starttag_def emit_def u_def
      format_language_def ok_clicked_language_def get_language_code_def)

text \<open>
  With a language attribute set, the appended \<open>xml:lang\<close> attribute is found by the
  second pass.
\<close>

lemma root_attribute_with_language:
  "processText (p\<lparr>language := Some (u ''lang=\"zh-CN\"'')\<rparr>) c
     [StartTag (u ''html'') [] (u ''<html>'')]
     = Inr (u ''<html xml:lang=\"zh-CN\">'')
   \<and> processText (p\<lparr>language := Some (u ''lang=\"zh-CN\"'')\<rparr>) c
       [StartTag (u ''html'') [(u ''xml:lang'', Some (u ''zh-CN''))]
          (u ''<html xml:lang=\"zh-CN\">'')]
     = Inr (u ''<html xml:lang=\"zh-CN\">'')"
  by (simp add: processText_def start_state_def handle_starttag_def emit_def u_def
      format_language_def zh_match_def ascii_lower_def is_word_def)

end
